theory Spec2Isabelle
  imports Main
begin

section \<open>DotNote: the message store, the update endpoint and the render loop\<close>

text \<open>
  A shallow embedding of \<^verbatim>\<open>dotnote.py\<close>. The program has one shared variable
  (\<^verbatim>\<open>current_message\<close>), one log file, a console, a buzzer and the LED matrix driver.
  The shared variable and the log file are state; what the program sends to the console,
  the buzzer and the driver is recorded, in the order it happens, in a list of effects.
  What the program cannot decide by itself (the clock, whether the log file can be
  written, whether the driver raises) is an input of the model.
\<close>

subsection \<open>Python strings\<close>

text \<open>
  A Python \<^verbatim>\<open>str\<close> is a sequence of Unicode code points; a character is modelled by its
  code point. \<open>py\<close> embeds a literal of the source.
\<close>

type_synonym pystr = "nat list"

definition py :: "string \<Rightarrow> pystr" where
  "py s = map of_char s"

text \<open>
  \<^verbatim>\<open>str.strip()\<close> without argument removes the characters for which \<^verbatim>\<open>str.isspace\<close> holds:
  U+0009..U+000D, U+001C..U+0020, U+0085, U+00A0, U+1680, U+2000..U+200A, U+2028, U+2029,
  U+202F, U+205F and U+3000. It first skips them from the left, then from the right.
\<close>

definition isspace :: "nat \<Rightarrow> bool" where
  "isspace c \<longleftrightarrow>
     (9 \<le> c \<and> c \<le> 13) \<or> (28 \<le> c \<and> c \<le> 32) \<or> c = 133 \<or> c = 160 \<or> c = 5760 \<or>
     (8192 \<le> c \<and> c \<le> 8202) \<or> c = 8232 \<or> c = 8233 \<or> c = 8239 \<or> c = 8287 \<or> c = 12288"

definition strip :: "pystr \<Rightarrow> pystr" where
  "strip s = rev (dropWhile isspace (rev (dropWhile isspace s)))"

subsection \<open>Configuration constants\<close>

definition DEFAULT_MESSAGE :: pystr where
  "DEFAULT_MESSAGE = py ''Welcome to DotNote!   ''"

definition MESSAGE_SPACING :: pystr where
  "MESSAGE_SPACING = py ''   ''"

definition BUZZER_ENABLED :: bool where
  "BUZZER_ENABLED = True"

definition LOG_ENABLED :: bool where
  "LOG_ENABLED = True"

text \<open>The string the render loop stores when the driver raises (line 94 of the source).\<close>

definition ERROR_MESSAGE :: pystr where
  "ERROR_MESSAGE = py ''Error: Unsupported character   ''"

subsection \<open>State, effects and the environment\<close>

text \<open>An exception is represented by the text \<^verbatim>\<open>str(e)\<close> that an f-string prints for it.\<close>

datatype py_exception = PyException pystr

fun exc_text :: "py_exception \<Rightarrow> pystr" where
  "exc_text (PyException t) = t"

text \<open>
  What the program does to the outside, in the order it does it: an assignment to
  \<^verbatim>\<open>current_message\<close> under the lock, a completed append to the log file, a line printed
  to the console, a started beep thread, a call of \<^verbatim>\<open>show_message\<close>.
\<close>

datatype effect =
    StoreWrite pystr
  | LogAppend pystr
  | ConsolePrint pystr
  | BeepStart
  | DriverCall pystr

record world =
  current_message :: pystr
  log_file :: pystr
  effects :: "effect list"

text \<open>
  Appending to the log file either succeeds or raises. When it raises, the first \<open>k\<close>
  characters of the entry may already have reached the file (\<open>k = 0\<close> when
  \<^verbatim>\<open>open\<close> itself fails).
\<close>

datatype append_result = Written | AppendRaises py_exception nat

text \<open>
  One request to \<^verbatim>\<open>GET /update\<close>: the \<^verbatim>\<open>message\<close> query parameter
  (\<open>None\<close> when absent), the text of \<^verbatim>\<open>request.remote_addr\<close> as the f-string
  renders it, the text \<^verbatim>\<open>time.strftime\<close> returns during the request and the outcome
  of the append to the log file.
\<close>

record request =
  arg_message :: "pystr option"
  remote_addr :: pystr
  timestamp :: pystr
  log_io :: append_result

text \<open>The response: the JSON object as a list of key/value pairs, and the HTTP status.\<close>

type_synonym response = "(pystr \<times> pystr) list \<times> nat"

subsection \<open>Core functions\<close>

text \<open>The assignment \<^verbatim>\<open>current_message = v\<close> inside \<^verbatim>\<open>with message_lock\<close>.\<close>

definition set_message :: "pystr \<Rightarrow> world \<Rightarrow> world" where
  "set_message v w = w\<lparr>current_message := v, effects := effects w @ [StoreWrite v]\<rparr>"

definition print_line :: "pystr \<Rightarrow> world \<Rightarrow> world" where
  "print_line t w = w\<lparr>effects := effects w @ [ConsolePrint t]\<rparr>"

text \<open>
  \<^verbatim>\<open>with open(LOG_FILE, "a", encoding="utf-8") as log_file: log_file.write(log_entry)\<close>:
  the new world, or the exception together with the world it leaves.
\<close>

definition append_log :: "append_result \<Rightarrow> pystr \<Rightarrow> world \<Rightarrow> (py_exception \<times> world) + world" where
  "append_log io entry w =
     (case io of
        Written \<Rightarrow>
          Inr (w\<lparr>log_file := log_file w @ entry, effects := effects w @ [LogAppend entry]\<rparr>)
      | AppendRaises e k \<Rightarrow>
          Inl (e, w\<lparr>log_file := log_file w @ take k entry\<rparr>))"

definition log_message :: "pystr \<Rightarrow> pystr \<Rightarrow> pystr \<Rightarrow> append_result \<Rightarrow> world \<Rightarrow> world" where
  "log_message message ip ts io w =
     (if \<not> LOG_ENABLED then w
      else
        let log_entry = ts @ py '' - '' @ ip @ py '' - '' @ strip message @ [10] in
        case append_log io log_entry w of
          Inr w' \<Rightarrow> w'
        | Inl (e, w') \<Rightarrow> print_line (py ''Error writing to log: '' @ exc_text e) w')"

text \<open>
  \<^verbatim>\<open>threading.Thread(target=beep, daemon=True).start()\<close>: the beep pattern runs in
  its own thread; the handler only starts it.
\<close>

definition start_beep :: "world \<Rightarrow> world" where
  "start_beep w = w\<lparr>effects := effects w @ [BeepStart]\<rparr>"

definition error_response :: response where
  "error_response = ([(py ''error'', py ''No valid message provided'')], 400)"

definition success_response :: response where
  "success_response = ([(py ''message'', py ''Message updated'')], 200)"

text \<open>
  The handler of \<^verbatim>\<open>GET /update\<close>. \<^verbatim>\<open>request.args.get('message')\<close> is \<open>None\<close> when
  the parameter is absent, and \<^verbatim>\<open>not new_message\<close> holds for \<open>None\<close> and for the empty
  string.
\<close>

definition update_message :: "request \<Rightarrow> world \<Rightarrow> response \<times> world" where
  "update_message rq w =
     (case arg_message rq of
        None \<Rightarrow> (error_response, w)
      | Some m \<Rightarrow>
          if m = [] \<or> strip m = [] then (error_response, w)
          else
            let new_message = m @ MESSAGE_SPACING;
                w1 = set_message new_message w;
                w2 = log_message new_message (remote_addr rq) (timestamp rq) (log_io rq) w1;
                w3 = (if BUZZER_ENABLED then start_beep w2 else w2)
            in (success_response, w3))"

text \<open>Requests handled one after the other; only the state is kept.\<close>

fun run_requests :: "request list \<Rightarrow> world \<Rightarrow> world" where
  "run_requests [] w = w"
| "run_requests (rq # rqs) w = run_requests rqs (snd (update_message rq w))"

subsection \<open>The render loop and the threads\<close>

text \<open>
  \<^verbatim>\<open>display_loop\<close> runs in its own thread while requests are handled. The thread is
  modelled by its control point: each constructor is a place of the loop body where the
  thread can be while other threads run. The local variable \<^verbatim>\<open>msg\<close> is carried by
  the control points at which it is read.

  \<^item> \<open>AtSnapshot\<close>: top of \<^verbatim>\<open>while True\<close>, before \<^verbatim>\<open>msg = current_message\<close> (line 79);
  \<^item> \<open>AtCall msg\<close>: the snapshot is taken, \<^verbatim>\<open>show_message\<close> not yet called (line 83);
  \<^item> \<open>InDriver msg\<close>: inside \<^verbatim>\<open>show_message(device, msg, ...)\<close>, which blocks;
  \<^item> \<open>AtReport e\<close>: in the \<^verbatim>\<open>except\<close> branch, before \<^verbatim>\<open>print\<close> (line 91);
  \<^item> \<open>AtSentinel\<close>: before the assignment of the error message (line 93);
  \<^item> \<open>AtSleep\<close>: in \<^verbatim>\<open>time.sleep(0.1)\<close> (line 95).
\<close>

datatype loop_pc =
    AtSnapshot
  | AtCall pystr
  | InDriver pystr
  | AtReport py_exception
  | AtSentinel
  | AtSleep

record system =
  loop_pc :: loop_pc
  shared :: world

text \<open>The call \<^verbatim>\<open>show_message(device, msg, ...)\<close> begins.\<close>

definition call_driver :: "pystr \<Rightarrow> world \<Rightarrow> world" where
  "call_driver msg w = w\<lparr>effects := effects w @ [DriverCall msg]\<rparr>"

text \<open>
  One step of the loop thread. Inside the driver the thread is blocked: it moves on only
  when the driver returns or raises.
\<close>

fun display_loop_step :: "system \<Rightarrow> system option" where
  "display_loop_step s =
     (case loop_pc s of
        AtSnapshot \<Rightarrow> Some (s\<lparr>loop_pc := AtCall (current_message (shared s))\<rparr>)
      | AtCall msg \<Rightarrow> Some (s\<lparr>loop_pc := InDriver msg, shared := call_driver msg (shared s)\<rparr>)
      | InDriver msg \<Rightarrow> None
      | AtReport e \<Rightarrow>
          Some (s\<lparr>loop_pc := AtSentinel,
                 shared := print_line (py ''Error displaying message: '' @ exc_text e) (shared s)\<rparr>)
      | AtSentinel \<Rightarrow>
          Some (s\<lparr>loop_pc := AtSleep, shared := set_message ERROR_MESSAGE (shared s)\<rparr>)
      | AtSleep \<Rightarrow> Some (s\<lparr>loop_pc := AtSnapshot\<rparr>))"

text \<open>
  What can happen next in the program: the loop thread takes a step, the driver returns
  normally, the driver raises \<^verbatim>\<open>Exception\<close> \<open>e\<close>, or a request is handled. The handler
  touches \<^verbatim>\<open>current_message\<close> in one assignment under the lock, and the loop thread
  neither reads the log file nor depends on the effects, so a request is one step.
\<close>

datatype action =
    LoopStep
  | DriverReturns
  | DriverRaises py_exception
  | Request request

fun step :: "action \<Rightarrow> system \<Rightarrow> system option" where
  "step LoopStep s = display_loop_step s"
| "step DriverReturns s =
     (case loop_pc s of InDriver msg \<Rightarrow> Some (s\<lparr>loop_pc := AtSleep\<rparr>) | _ \<Rightarrow> None)"
| "step (DriverRaises e) s =
     (case loop_pc s of InDriver msg \<Rightarrow> Some (s\<lparr>loop_pc := AtReport e\<rparr>) | _ \<Rightarrow> None)"
| "step (Request rq) s = Some (s\<lparr>shared := snd (update_message rq (shared s))\<rparr>)"

fun run :: "action list \<Rightarrow> system \<Rightarrow> system option" where
  "run [] s = Some s"
| "run (a # as) s = (case step a s of None \<Rightarrow> None | Some s' \<Rightarrow> run as s')"

subsection \<open>Lines of the log file\<close>

text \<open>
  The characters that end a line of a text file: line feed, which \<^verbatim>\<open>log_message\<close>
  writes at the end of each entry, and carriage return.
\<close>

definition line_break :: "nat \<Rightarrow> bool" where
  "line_break c \<longleftrightarrow> c = 10 \<or> c = 13"

subsection \<open>The invariant of the store\<close>

text \<open>
  \<open>has_spacing v\<close>: the string ends with \<^verbatim>\<open>MESSAGE_SPACING\<close>. \<open>store_inv\<close> says so of the
  store and of every value that was assigned to it.
\<close>

definition has_spacing :: "pystr \<Rightarrow> bool" where
  "has_spacing v \<longleftrightarrow> (\<exists>p. v = p @ MESSAGE_SPACING)"

definition store_inv :: "world \<Rightarrow> bool" where
  "store_inv w \<longleftrightarrow>
     has_spacing (current_message w) \<and>
     (\<forall>v. StoreWrite v \<in> set (effects w) \<longrightarrow> has_spacing v)"

subsection \<open>Example inputs\<close>

text \<open>The state at startup (line 65 of the source), with the log file as it was left.\<close>

definition startup_world :: "pystr \<Rightarrow> world" where
  "startup_world old_log = \<lparr>current_message = DEFAULT_MESSAGE, log_file = old_log, effects = []\<rparr>"

text \<open>The program at startup: the loop thread is at the top of its loop.\<close>

definition initial_system :: "pystr \<Rightarrow> system" where
  "initial_system old_log = \<lparr>loop_pc = AtSnapshot, shared = startup_world old_log\<rparr>"

definition hello_request :: request where
  "hello_request =
     \<lparr>arg_message = Some (py ''Hello''), remote_addr = py ''192.168.1.20'',
      timestamp = py ''2024-05-01 12:00:00'', log_io = Written\<rparr>"

definition denied_request :: request where
  "denied_request =
     \<lparr>arg_message = Some (py ''Hello''), remote_addr = py ''192.168.1.20'',
      timestamp = py ''2024-05-01 12:00:00'',
      log_io = AppendRaises (PyException (py ''Permission denied'')) 0\<rparr>"

definition disk_full_request :: request where
  "disk_full_request =
     \<lparr>arg_message = Some (py ''Hi''), remote_addr = py ''10.0.0.7'',
      timestamp = py ''2024-05-01 12:00:05'',
      log_io = AppendRaises (PyException (py ''No space left on device'')) 0\<rparr>"

definition padded_request :: request where
  "padded_request =
     \<lparr>arg_message = Some (py '' Hi ''), remote_addr = py ''10.0.0.7'',
      timestamp = py ''2024-05-01 12:00:09'', log_io = Written\<rparr>"

definition blank_requests :: "request list" where
  "blank_requests =
     [\<lparr>arg_message = None, remote_addr = py ''10.0.0.7'',
       timestamp = py ''2024-05-01 12:00:00'', log_io = Written\<rparr>,
      \<lparr>arg_message = Some [], remote_addr = py ''10.0.0.7'',
       timestamp = py ''2024-05-01 12:00:01'', log_io = Written\<rparr>,
      \<lparr>arg_message = Some [32, 9, 32], remote_addr = py ''10.0.0.8'',
       timestamp = py ''2024-05-01 12:00:01'', log_io = Written\<rparr>]"

text \<open>
  A request whose text has a line feed in the middle (\<^verbatim>\<open>message=a%0Ab\<close>).
\<close>

definition newline_request :: request where
  "newline_request =
     \<lparr>arg_message = Some [97, 10, 98], remote_addr = py ''10.0.0.7'',
      timestamp = py ''2024-05-01 12:00:07'', log_io = Written\<rparr>"

text \<open>A run in which a request arrives during an iteration whose driver call raises.\<close>

definition example_trace :: "action list" where
  "example_trace =
     [LoopStep, Request hello_request, LoopStep, DriverRaises (PyException (py ''bad glyph'')),
      LoopStep, LoopStep]"

section \<open>Properties\<close>

subsection \<open>Trimming\<close>

lemma MESSAGE_SPACING_spaces: "MESSAGE_SPACING = [32, 32, 32]"
  by (simp add: MESSAGE_SPACING_def py_def)

lemma isspace_32: "isspace 32"
  by (simp add: isspace_def)

lemma strip_Nil_iff: "strip s = [] \<longleftrightarrow> (\<forall>c\<in>set s. isspace c)"
proof
  assume e: "strip s = []"
  show "\<forall>c\<in>set s. isspace c"
  proof (rule ccontr)
    assume "\<not> (\<forall>c\<in>set s. isspace c)"
    then have ne: "dropWhile isspace s \<noteq> []" by simp
    then have "\<not> isspace (hd (dropWhile isspace s))" by (rule hd_dropWhile)
    moreover have "hd (dropWhile isspace s) \<in> set (rev (dropWhile isspace s))"
      using ne by simp
    moreover from e have "\<forall>c\<in>set (rev (dropWhile isspace s)). isspace c"
      by (simp add: strip_def)
    ultimately show False by blast
  qed
next
  assume "\<forall>c\<in>set s. isspace c"
  then show "strip s = []" by (auto simp: strip_def dest: set_dropWhileD)
qed

lemma strip_append_spaces:
  assumes "\<forall>c\<in>set t. isspace c"
  shows "strip (s @ t) = strip s"
proof (cases "\<forall>c\<in>set s. isspace c")
  case True
  with assms have "\<forall>c\<in>set (s @ t). isspace c" by auto
  then have "strip (s @ t) = []" by (simp only: strip_Nil_iff)
  moreover from True have "strip s = []" by (simp only: strip_Nil_iff)
  ultimately show ?thesis by simp
next
  case False
  then obtain x where x: "x \<in> set s" "\<not> isspace x" by blast
  then have l: "dropWhile isspace (s @ t) = dropWhile isspace s @ t"
    by (rule dropWhile_append1)
  have "dropWhile isspace (rev t @ rev (dropWhile isspace s))
          = dropWhile isspace (rev (dropWhile isspace s))"
    using assms by (intro dropWhile_append2) simp
  then show ?thesis by (simp add: strip_def l)
qed

lemma strip_spacing: "strip (m @ MESSAGE_SPACING) = strip m"
  by (rule strip_append_spaces) (simp add: MESSAGE_SPACING_spaces isspace_32)

lemma strip_last: "strip s \<noteq> [] \<Longrightarrow> \<not> isspace (last (strip s))"
proof -
  assume ne: "strip s \<noteq> []"
  let ?d = "dropWhile isspace (rev (dropWhile isspace s))"
  from ne have d: "?d \<noteq> []" by (simp add: strip_def)
  then have "\<not> isspace (hd ?d)" by (rule hd_dropWhile)
  moreover have "last (strip s) = hd ?d" using d by (simp add: strip_def last_rev)
  ultimately show ?thesis by simp
qed

lemma strip_ne_padded: "strip s \<noteq> m @ MESSAGE_SPACING"
proof
  assume e: "strip s = m @ MESSAGE_SPACING"
  then have "strip s \<noteq> []" by (simp add: MESSAGE_SPACING_spaces)
  then have "\<not> isspace (last (strip s))" by (rule strip_last)
  moreover have "last (strip s) = 32" by (simp add: e MESSAGE_SPACING_spaces)
  ultimately show False by (simp add: isspace_32)
qed

subsection \<open>The update endpoint\<close>

lemma strip_Nil: "strip [] = []"
  by (simp add: strip_def)

lemma update_message_accepted:
  assumes "arg_message rq = Some m" and "strip m \<noteq> []"
  shows "update_message rq w =
           (success_response,
            start_beep (log_message (m @ MESSAGE_SPACING) (remote_addr rq) (timestamp rq) (log_io rq)
              (set_message (m @ MESSAGE_SPACING) w)))"
proof -
  from assms(2) have "m \<noteq> []" using strip_Nil by auto
  with assms show ?thesis
    by (simp add: update_message_def BUZZER_ENABLED_def Let_def)
qed

lemma update_message_rejected:
  assumes "arg_message rq = None \<or> (\<exists>m. arg_message rq = Some m \<and> strip m = [])"
  shows "update_message rq w = (error_response, w)"
  using assms by (auto simp: update_message_def)

lemma log_message_Written:
  "log_message message ip ts Written w =
     w\<lparr>log_file := log_file w @ ts @ py '' - '' @ ip @ py '' - '' @ strip message @ [10],
       effects := effects w @ [LogAppend (ts @ py '' - '' @ ip @ py '' - '' @ strip message @ [10])]\<rparr>"
  by (simp add: log_message_def LOG_ENABLED_def append_log_def Let_def)

lemma log_message_AppendRaises:
  "log_message message ip ts (AppendRaises e k) w =
     w\<lparr>log_file := log_file w @ take k (ts @ py '' - '' @ ip @ py '' - '' @ strip message @ [10]),
       effects := effects w @ [ConsolePrint (py ''Error writing to log: '' @ exc_text e)]\<rparr>"
  by (simp add: log_message_def LOG_ENABLED_def append_log_def print_line_def)

lemma log_message_current_message:
  "current_message (log_message message ip ts io w) = current_message w"
  by (cases io) (simp_all add: log_message_Written log_message_AppendRaises)

lemma accepted_current_message:
  assumes "arg_message rq = Some m" and "strip m \<noteq> []"
  shows "current_message (snd (update_message rq w)) = m @ MESSAGE_SPACING"
  by (simp add: update_message_accepted [OF assms] start_beep_def log_message_current_message
      set_message_def)

text \<open>
  Claim C1. When the \<^verbatim>\<open>message\<close> parameter \<open>m\<close> is non-empty after trimming and
  equal to its own trim, the request succeeds and leaves \<^verbatim>\<open>current_message\<close> holding
  exactly \<open>m\<close> followed by three spaces.
\<close>

theorem update_stores_message_with_separator:
  assumes "arg_message rq = Some m" and "strip m \<noteq> []" and "strip m = m"
  shows "fst (update_message rq w) = success_response \<and>
         current_message (snd (update_message rq w)) = m @ py ''   ''"
proof -
  have "current_message (snd (update_message rq w)) = m @ MESSAGE_SPACING"
    using assms(1,2) by (rule accepted_current_message)
  moreover have "fst (update_message rq w) = success_response"
    by (simp add: update_message_accepted [OF assms(1,2)])
  ultimately show ?thesis
    by (simp add: MESSAGE_SPACING_def)
qed

theorem update_stores_message_with_separator_witness:
  "fst (update_message hello_request (startup_world [])) = success_response \<and>
   current_message (snd (update_message hello_request (startup_world []))) = py ''Hello'' @ py ''   ''"
proof (rule update_stores_message_with_separator)
  show "arg_message hello_request = Some (py ''Hello'')"
    by (simp add: hello_request_def)
  show "strip (py ''Hello'') \<noteq> []"
    by (simp add: strip_def isspace_def py_def)
  show "strip (py ''Hello'') = py ''Hello''"
    by (simp add: strip_def isspace_def py_def)
qed

text \<open>
  Claim C2. The handler answers \<^verbatim>\<open>{"error": "No valid message provided"}\<close> with status
  400 exactly when the \<^verbatim>\<open>message\<close> parameter is absent or trims to the empty string, and
  \<^verbatim>\<open>{"message": "Message updated"}\<close> with status 200 in every other case.
\<close>

theorem update_response:
  "(fst (update_message rq w) = ([(py ''error'', py ''No valid message provided'')], 400)
      \<longleftrightarrow> (arg_message rq = None \<or> (\<exists>m. arg_message rq = Some m \<and> strip m = [])))
   \<and> (\<not> (arg_message rq = None \<or> (\<exists>m. arg_message rq = Some m \<and> strip m = []))
      \<longrightarrow> fst (update_message rq w) = ([(py ''message'', py ''Message updated'')], 200))"
proof (cases "arg_message rq = None \<or> (\<exists>m. arg_message rq = Some m \<and> strip m = [])")
  case True
  then show ?thesis
    by (simp add: update_message_rejected error_response_def)
next
  case False
  then obtain m where m: "arg_message rq = Some m" "strip m \<noteq> []" by auto
  have "fst (update_message rq w) = success_response"
    by (simp add: update_message_accepted [OF m])
  with False show ?thesis
    by (simp add: success_response_def)
qed

theorem update_response_witness:
  "fst (update_message hello_request (startup_world [])) =
     ([(py ''message'', py ''Message updated'')], 200)"
proof -
  have "\<not> (arg_message hello_request = None \<or>
           (\<exists>m. arg_message hello_request = Some m \<and> strip m = []))"
    by (simp add: hello_request_def strip_def isspace_def py_def)
  with update_response [of hello_request "startup_world []"] show ?thesis
    by blast
qed

lemma accepted_effects:
  assumes "arg_message rq = Some m" and "strip m \<noteq> []"
  shows "effects (snd (update_message rq w)) =
           effects w @ [StoreWrite (m @ MESSAGE_SPACING)] @
           (case log_io rq of
              Written \<Rightarrow>
                [LogAppend (timestamp rq @ py '' - '' @ remote_addr rq @ py '' - '' @ strip m @ [10])]
            | AppendRaises e k \<Rightarrow> [ConsolePrint (py ''Error writing to log: '' @ exc_text e)]) @
           [BeepStart]"
  by (cases "log_io rq")
     (simp_all add: update_message_accepted [OF assms] start_beep_def log_message_Written
        log_message_AppendRaises set_message_def strip_spacing)

lemma accepted_log_file:
  assumes "arg_message rq = Some m" and "strip m \<noteq> []"
  shows "log_file (snd (update_message rq w)) =
           log_file w @
           (case log_io rq of
              Written \<Rightarrow> timestamp rq @ py '' - '' @ remote_addr rq @ py '' - '' @ strip m @ [10]
            | AppendRaises e k \<Rightarrow>
                take k (timestamp rq @ py '' - '' @ remote_addr rq @ py '' - '' @ strip m @ [10]))"
  by (cases "log_io rq")
     (simp_all add: update_message_accepted [OF assms] start_beep_def log_message_Written
        log_message_AppendRaises set_message_def strip_spacing)

lemma blank_rejected:
  assumes "arg_message rq = None \<or> (\<exists>m. arg_message rq = Some m \<and> (\<forall>c\<in>set m. isspace c))"
  shows "update_message rq w = (error_response, w)"
  using assms by (intro update_message_rejected) (auto simp: strip_Nil_iff)

text \<open>
  Claim C5. A request whose \<^verbatim>\<open>message\<close> parameter is absent, empty or made of whitespace
  only leaves the whole state as it was: the store, the log file and the list of effects
  (so nothing is printed and no beep is started). The same holds for any number of such
  requests in a row, and each of them is answered with the error response.
\<close>

theorem rejected_requests_change_nothing:
  assumes "\<forall>rq\<in>set rqs. arg_message rq = None \<or>
             (\<exists>m. arg_message rq = Some m \<and> (\<forall>c\<in>set m. isspace c))"
  shows "run_requests rqs w = w \<and>
         (\<forall>rq\<in>set rqs. update_message rq w = (([(py ''error'', py ''No valid message provided'')], 400), w))"
proof -
  from assms have "run_requests rqs w = w"
    by (induction rqs) (simp_all add: blank_rejected)
  moreover from assms have "\<forall>rq\<in>set rqs. update_message rq w = (error_response, w)"
    by (simp add: blank_rejected)
  ultimately show ?thesis by (simp add: error_response_def)
qed

theorem rejected_requests_change_nothing_witness:
  "run_requests blank_requests (startup_world (py ''old'')) = startup_world (py ''old'')"
proof -
  have "\<forall>rq\<in>set blank_requests. arg_message rq = None \<or>
          (\<exists>m. arg_message rq = Some m \<and> (\<forall>c\<in>set m. isspace c))"
    by (simp add: blank_requests_def isspace_def)
  from rejected_requests_change_nothing [OF this] show ?thesis by blast
qed

text \<open>
  Claim C7. When the append to the log file raises during an accepted request, the handler
  still returns the success response with status 200, the store holds the new value, and
  the beep is started after the error has been printed: the exception stays inside
  \<^verbatim>\<open>log_message\<close>.
\<close>

theorem log_failure_is_contained:
  assumes "arg_message rq = Some m" and "strip m \<noteq> []" and "log_io rq = AppendRaises e k"
  shows "fst (update_message rq w) = ([(py ''message'', py ''Message updated'')], 200) \<and>
         current_message (snd (update_message rq w)) = m @ MESSAGE_SPACING \<and>
         effects (snd (update_message rq w)) =
           effects w @ [StoreWrite (m @ MESSAGE_SPACING),
                        ConsolePrint (py ''Error writing to log: '' @ exc_text e),
                        BeepStart]"
proof -
  have "fst (update_message rq w) = success_response"
    by (simp add: update_message_accepted [OF assms(1,2)])
  moreover have "current_message (snd (update_message rq w)) = m @ MESSAGE_SPACING"
    using assms(1,2) by (rule accepted_current_message)
  moreover have "effects (snd (update_message rq w)) =
      effects w @ [StoreWrite (m @ MESSAGE_SPACING),
                   ConsolePrint (py ''Error writing to log: '' @ exc_text e), BeepStart]"
    by (simp add: accepted_effects [OF assms(1,2)] assms(3))
  ultimately show ?thesis by (simp add: success_response_def)
qed

theorem log_failure_is_contained_witness:
  "fst (update_message denied_request (startup_world [])) = ([(py ''message'', py ''Message updated'')], 200) \<and>
   current_message (snd (update_message denied_request (startup_world []))) = py ''Hello'' @ MESSAGE_SPACING \<and>
   effects (snd (update_message denied_request (startup_world []))) =
     effects (startup_world []) @ [StoreWrite (py ''Hello'' @ MESSAGE_SPACING),
        ConsolePrint (py ''Error writing to log: '' @ exc_text (PyException (py ''Permission denied''))),
        BeepStart]"
proof (rule log_failure_is_contained)
  show "arg_message denied_request = Some (py ''Hello'')"
    by (simp add: denied_request_def)
  show "strip (py ''Hello'') \<noteq> []"
    by (simp add: strip_def isspace_def py_def)
  show "log_io denied_request = AppendRaises (PyException (py ''Permission denied'')) 0"
    by (simp add: denied_request_def)
qed

text \<open>
  Claim C10. For an accepted input that has leading or trailing whitespace, the store
  receives the input as it came, followed by the separator, and not the trimmed input;
  the entry written to the log file carries the trimmed input.
\<close>

theorem untrimmed_message_is_stored:
  assumes "arg_message rq = Some m" and "strip m \<noteq> []" and "strip m \<noteq> m"
  shows "current_message (snd (update_message rq w)) = m @ MESSAGE_SPACING \<and>
         current_message (snd (update_message rq w)) \<noteq> strip m @ MESSAGE_SPACING \<and>
         (log_io rq = Written \<longrightarrow>
            log_file (snd (update_message rq w)) =
              log_file w @ timestamp rq @ py '' - '' @ remote_addr rq @ py '' - '' @ strip m @ [10])"
proof -
  have "current_message (snd (update_message rq w)) = m @ MESSAGE_SPACING"
    using assms(1,2) by (rule accepted_current_message)
  moreover have "m @ MESSAGE_SPACING \<noteq> strip m @ MESSAGE_SPACING"
    using assms(3) by simp
  moreover have "log_io rq = Written \<longrightarrow>
      log_file (snd (update_message rq w)) =
        log_file w @ timestamp rq @ py '' - '' @ remote_addr rq @ py '' - '' @ strip m @ [10]"
    by (simp add: accepted_log_file [OF assms(1,2)])
  ultimately show ?thesis by simp
qed

theorem untrimmed_message_is_stored_witness:
  "current_message (snd (update_message padded_request (startup_world []))) = py '' Hi    '' \<and>
   log_file (snd (update_message padded_request (startup_world []))) =
     py ''2024-05-01 12:00:09 - 10.0.0.7 - Hi'' @ [10]"
proof -
  have 1: "arg_message padded_request = Some (py '' Hi '')"
    by (simp add: padded_request_def)
  have s: "strip (py '' Hi '') = py ''Hi''"
    by (simp add: strip_def isspace_def py_def)
  have 2: "strip (py '' Hi '') \<noteq> []"
    by (simp add: s) (simp add: py_def)
  have 3: "strip (py '' Hi '') \<noteq> py '' Hi ''"
    by (simp add: s) (simp add: py_def)
  have 4: "log_io padded_request = Written"
    by (simp add: padded_request_def)
  from untrimmed_message_is_stored [OF 1 2 3, of "startup_world []"] 4
  have "current_message (snd (update_message padded_request (startup_world []))) =
          py '' Hi '' @ MESSAGE_SPACING \<and>
        log_file (snd (update_message padded_request (startup_world []))) =
          log_file (startup_world []) @ timestamp padded_request @ py '' - '' @
          remote_addr padded_request @ py '' - '' @ strip (py '' Hi '') @ [10]"
    by blast
  then show ?thesis
    unfolding s by (simp add: padded_request_def startup_world_def py_def MESSAGE_SPACING_def)
qed

lemma no_line_break_separator: "\<forall>c\<in>set (py '' - ''). \<not> line_break c"
  by (simp add: py_def line_break_def)

text \<open>
  Claim C3, as amended. An accepted update whose append to the log file succeeds, and whose
  timestamp, source address and trimmed text hold no line break, appends exactly one line
  \<^verbatim>\<open><timestamp> - <source address> - <text>\<close>, ended by the only line feed written;
  the text is the trimmed input and differs from the padded value in the store. A rejected
  update leaves the log file as it was.
\<close>

theorem one_log_line_when_append_succeeds:
  "(arg_message rq = Some m \<and> strip m \<noteq> [] \<and> log_io rq = Written \<and>
    (\<forall>c\<in>set (timestamp rq @ remote_addr rq @ strip m). \<not> line_break c) \<longrightarrow>
      log_file (snd (update_message rq w)) =
        log_file w @ (timestamp rq @ py '' - '' @ remote_addr rq @ py '' - '' @ strip m) @ [10] \<and>
      (\<forall>c\<in>set (timestamp rq @ py '' - '' @ remote_addr rq @ py '' - '' @ strip m).
         \<not> line_break c) \<and>
      strip m \<noteq> current_message (snd (update_message rq w)))
   \<and> (arg_message rq = None \<or> (\<exists>m. arg_message rq = Some m \<and> strip m = []) \<longrightarrow>
      log_file (snd (update_message rq w)) = log_file w)"
proof (intro conjI impI)
  assume a: "arg_message rq = Some m \<and> strip m \<noteq> [] \<and> log_io rq = Written \<and>
    (\<forall>c\<in>set (timestamp rq @ remote_addr rq @ strip m). \<not> line_break c)"
  then have m: "arg_message rq = Some m" "strip m \<noteq> []" by simp_all
  from a show "log_file (snd (update_message rq w)) =
      log_file w @ (timestamp rq @ py '' - '' @ remote_addr rq @ py '' - '' @ strip m) @ [10]"
    by (simp add: accepted_log_file [OF m])
  from a have "\<forall>c\<in>set (timestamp rq) \<union> set (remote_addr rq) \<union> set (strip m). \<not> line_break c"
    by simp
  with no_line_break_separator
  show "\<forall>c\<in>set (timestamp rq @ py '' - '' @ remote_addr rq @ py '' - '' @ strip m).
          \<not> line_break c"
    by auto
  show "strip m \<noteq> current_message (snd (update_message rq w))"
    by (simp add: accepted_current_message [OF m] strip_ne_padded)
next
  assume "arg_message rq = None \<or> (\<exists>m. arg_message rq = Some m \<and> strip m = [])"
  then show "log_file (snd (update_message rq w)) = log_file w"
    by (simp add: update_message_rejected)
qed

theorem one_log_line_when_append_succeeds_witness:
  "log_file (snd (update_message hello_request (startup_world (py ''old'')))) =
     py ''old'' @ py ''2024-05-01 12:00:00 - 192.168.1.20 - Hello'' @ [10]"
proof -
  have s: "strip (py ''Hello'') = py ''Hello''"
    by (simp add: strip_def isspace_def py_def)
  have "arg_message hello_request = Some (py ''Hello'') \<and> strip (py ''Hello'') \<noteq> [] \<and>
        log_io hello_request = Written \<and>
        (\<forall>c\<in>set (timestamp hello_request @ remote_addr hello_request @ strip (py ''Hello'')).
           \<not> line_break c)"
    unfolding s by (simp add: hello_request_def py_def line_break_def)
  with one_log_line_when_append_succeeds
    [of hello_request "py ''Hello''" "startup_world (py ''old'')"]
  have "log_file (snd (update_message hello_request (startup_world (py ''old'')))) =
          log_file (startup_world (py ''old'')) @
          (timestamp hello_request @ py '' - '' @ remote_addr hello_request @ py '' - '' @
           strip (py ''Hello'')) @ [10]"
    by blast
  then show ?thesis
    unfolding s by (simp add: hello_request_def startup_world_def py_def)
qed

text \<open>
  Claim C3 as stated fails in two ways. The first request is accepted and answered with
  status 200 while the append raises (\<^verbatim>\<open>open\<close> is refused): the log file holds what it
  held before. The second is accepted with a successful append, and its text carries a
  line feed: two lines are appended.
\<close>

theorem accepted_update_without_one_log_line:
  "fst (update_message denied_request (startup_world (py ''old''))) =
     ([(py ''message'', py ''Message updated'')], 200) \<and>
   log_file (snd (update_message denied_request (startup_world (py ''old'')))) = py ''old'' \<and>
   fst (update_message newline_request (startup_world (py ''old''))) =
     ([(py ''message'', py ''Message updated'')], 200) \<and>
   log_file (snd (update_message newline_request (startup_world (py ''old'')))) =
     py ''old'' @ py ''2024-05-01 12:00:07 - 10.0.0.7 - a'' @ [10] @ py ''b'' @ [10]"
  by (simp add: update_message_def denied_request_def newline_request_def startup_world_def
      strip_def isspace_def py_def Let_def log_message_def append_log_def LOG_ENABLED_def
      BUZZER_ENABLED_def print_line_def start_beep_def set_message_def success_response_def
      MESSAGE_SPACING_def)

text \<open>
  Claim C6, as amended. For an accepted update the effects come in this order: the store is
  overwritten with the padded message; then the log entry is appended or, when the append
  raises, the error is printed; then the beep is started.
\<close>

theorem side_effects_in_order:
  assumes "arg_message rq = Some m" and "strip m \<noteq> []"
  shows "(log_io rq = Written \<longrightarrow>
            effects (snd (update_message rq w)) =
              effects w @
              [StoreWrite (m @ MESSAGE_SPACING),
               LogAppend (timestamp rq @ py '' - '' @ remote_addr rq @ py '' - '' @ strip m @ [10]),
               BeepStart])
       \<and> (\<forall>e k. log_io rq = AppendRaises e k \<longrightarrow>
            effects (snd (update_message rq w)) =
              effects w @
              [StoreWrite (m @ MESSAGE_SPACING),
               ConsolePrint (py ''Error writing to log: '' @ exc_text e),
               BeepStart])"
proof (cases "log_io rq")
  case Written
  then show ?thesis
    using accepted_effects [OF assms, of w] by simp
next
  case (AppendRaises e' k')
  then show ?thesis
    using accepted_effects [OF assms, of w] by simp
qed

theorem side_effects_in_order_witness:
  "effects (snd (update_message hello_request (startup_world []))) =
     [StoreWrite (py ''Hello   ''),
      LogAppend (py ''2024-05-01 12:00:00 - 192.168.1.20 - Hello'' @ [10]),
      BeepStart]"
proof -
  have s: "strip (py ''Hello'') = py ''Hello''"
    by (simp add: strip_def isspace_def py_def)
  have 1: "arg_message hello_request = Some (py ''Hello'')"
    by (simp add: hello_request_def)
  have 2: "strip (py ''Hello'') \<noteq> []"
    by (simp add: s) (simp add: py_def)
  have 3: "log_io hello_request = Written"
    by (simp add: hello_request_def)
  from side_effects_in_order [OF 1 2, of "startup_world []"] 3
  have "effects (snd (update_message hello_request (startup_world []))) =
          effects (startup_world []) @
          [StoreWrite (py ''Hello'' @ MESSAGE_SPACING),
           LogAppend (timestamp hello_request @ py '' - '' @ remote_addr hello_request @
                      py '' - '' @ strip (py ''Hello'') @ [10]),
           BeepStart]"
    by blast
  then show ?thesis
    unfolding s by (simp add: hello_request_def startup_world_def py_def MESSAGE_SPACING_def)
qed

text \<open>
  Claim C6 as stated fails: here the request is accepted and the append raises, so no log
  entry lies between the store write and the beep, and the log file stays empty.
\<close>

theorem accepted_update_without_log_append:
  "effects (snd (update_message disk_full_request (startup_world []))) =
     [StoreWrite (py ''Hi   ''),
      ConsolePrint (py ''Error writing to log: No space left on device''),
      BeepStart] \<and>
   log_file (snd (update_message disk_full_request (startup_world []))) = []"
  by (simp add: update_message_def disk_full_request_def startup_world_def strip_def isspace_def
      py_def Let_def log_message_def append_log_def LOG_ENABLED_def BUZZER_ENABLED_def
      print_line_def start_beep_def set_message_def MESSAGE_SPACING_def)

subsection \<open>The threads together\<close>

lemma run_append:
  "run (as @ bs) s = (case run as s of None \<Rightarrow> None | Some s' \<Rightarrow> run bs s')"
  by (induction as arbitrary: s) (simp_all split: option.splits)

lemma run_Requests:
  "run (map Request rqs) s = Some (s\<lparr>shared := run_requests rqs (shared s)\<rparr>)"
  by (induction rqs arbitrary: s) simp_all

lemma run_requests_append:
  "run_requests (xs @ ys) w = run_requests ys (run_requests xs w)"
  by (induction xs arbitrary: w) simp_all

lemma update_message_current_message:
  "current_message (snd (update_message rq w)) =
     (case arg_message rq of
        None \<Rightarrow> current_message w
      | Some m \<Rightarrow> if strip m = [] then current_message w else m @ MESSAGE_SPACING)"
proof (cases "arg_message rq")
  case None
  then show ?thesis by (simp add: update_message_rejected)
next
  case (Some m)
  show ?thesis
  proof (cases "strip m = []")
    case True
    with Some show ?thesis by (simp add: update_message_rejected)
  next
    case False
    with Some show ?thesis by (simp add: accepted_current_message)
  qed
qed

lemma run_requests_current_message_cong:
  "current_message w = current_message w' \<Longrightarrow>
   current_message (run_requests rqs w) = current_message (run_requests rqs w')"
proof (induction rqs arbitrary: w w')
  case Nil
  then show ?case by simp
next
  case (Cons rq rqs)
  have "current_message (snd (update_message rq w)) = current_message (snd (update_message rq w'))"
    by (simp only: update_message_current_message Cons.prems)
  then have "current_message (run_requests rqs (snd (update_message rq w))) =
             current_message (run_requests rqs (snd (update_message rq w')))"
    by (rule Cons.IH)
  then show ?case by (simp only: run_requests.simps)
qed

lemma has_spacingI: "has_spacing (p @ MESSAGE_SPACING)"
  unfolding has_spacing_def by (rule exI [of _ p]) (rule refl)

lemma has_spacing_DEFAULT_MESSAGE: "has_spacing DEFAULT_MESSAGE"
proof -
  have "DEFAULT_MESSAGE = py ''Welcome to DotNote!'' @ MESSAGE_SPACING"
    by (simp add: DEFAULT_MESSAGE_def MESSAGE_SPACING_def py_def)
  show ?thesis unfolding \<open>DEFAULT_MESSAGE = py ''Welcome to DotNote!'' @ MESSAGE_SPACING\<close>
    by (rule has_spacingI)
qed

lemma has_spacing_ERROR_MESSAGE: "has_spacing ERROR_MESSAGE"
proof -
  have "ERROR_MESSAGE = py ''Error: Unsupported character'' @ MESSAGE_SPACING"
    by (simp add: ERROR_MESSAGE_def MESSAGE_SPACING_def py_def)
  show ?thesis
    unfolding \<open>ERROR_MESSAGE = py ''Error: Unsupported character'' @ MESSAGE_SPACING\<close>
    by (rule has_spacingI)
qed

lemma store_inv_startup: "store_inv (startup_world old_log)"
  by (simp add: store_inv_def startup_world_def has_spacing_DEFAULT_MESSAGE)

lemma store_inv_set_message:
  "store_inv w \<Longrightarrow> has_spacing v \<Longrightarrow> store_inv (set_message v w)"
  by (auto simp: store_inv_def set_message_def)

lemma store_inv_update_message:
  assumes "store_inv w"
  shows "store_inv (snd (update_message rq w))"
proof (cases "arg_message rq = None \<or> (\<exists>m. arg_message rq = Some m \<and> strip m = [])")
  case True
  with assms show ?thesis by (simp add: update_message_rejected)
next
  case False
  then obtain m where m: "arg_message rq = Some m" "strip m \<noteq> []" by auto
  let ?w = "snd (update_message rq w)"
  have c: "has_spacing (current_message ?w)"
    by (simp add: accepted_current_message [OF m] has_spacingI)
  have "StoreWrite v \<in> set (effects ?w) \<Longrightarrow>
          v = m @ MESSAGE_SPACING \<or> StoreWrite v \<in> set (effects w)" for v
    by (cases "log_io rq") (auto simp: accepted_effects [OF m])
  then have "StoreWrite v \<in> set (effects ?w) \<Longrightarrow> has_spacing v" for v
    using assms has_spacingI [of m] by (auto simp: store_inv_def)
  with c show ?thesis by (simp add: store_inv_def)
qed

lemma store_inv_loop_step:
  assumes "store_inv (shared s)" and "display_loop_step s = Some s'"
  shows "store_inv (shared s')"
proof (cases "loop_pc s")
  case AtSnapshot
  with assms(2) have "shared s' = shared s" by auto
  with assms(1) show ?thesis by simp
next
  case (AtCall msg)
  with assms(2) have "shared s' = call_driver msg (shared s)" by auto
  with assms(1) show ?thesis by (simp add: store_inv_def call_driver_def)
next
  case (InDriver msg)
  with assms(2) show ?thesis by simp
next
  case (AtReport e)
  with assms(2) have
    "shared s' = print_line (py ''Error displaying message: '' @ exc_text e) (shared s)"
    by auto
  with assms(1) show ?thesis by (simp add: store_inv_def print_line_def)
next
  case AtSentinel
  with assms(2) have "shared s' = set_message ERROR_MESSAGE (shared s)" by auto
  with assms(1) show ?thesis
    by (simp add: store_inv_set_message has_spacing_ERROR_MESSAGE)
next
  case AtSleep
  with assms(2) have "shared s' = shared s" by auto
  with assms(1) show ?thesis by simp
qed

lemma store_inv_step:
  assumes "store_inv (shared s)" and "step a s = Some s'"
  shows "store_inv (shared s')"
proof (cases a)
  case LoopStep
  with assms(2) have "display_loop_step s = Some s'" by simp
  with assms(1) show ?thesis by (rule store_inv_loop_step)
next
  case DriverReturns
  with assms(2) have "shared s' = shared s" by (auto split: loop_pc.splits)
  with assms(1) show ?thesis by simp
next
  case (DriverRaises e)
  with assms(2) have "shared s' = shared s" by (auto split: loop_pc.splits)
  with assms(1) show ?thesis by simp
next
  case (Request rq)
  with assms(2) have "shared s' = snd (update_message rq (shared s))" by auto
  with assms(1) show ?thesis by (simp add: store_inv_update_message)
qed

lemma store_inv_run:
  "store_inv (shared s) \<Longrightarrow> run as s = Some s' \<Longrightarrow> store_inv (shared s')"
proof (induction as arbitrary: s)
  case Nil
  then show ?case by simp
next
  case (Cons a as)
  from Cons.prems(2) obtain s1 where s1: "step a s = Some s1" "run as s1 = Some s'"
    by (auto split: option.splits)
  from Cons.prems(1) s1(1) have "store_inv (shared s1)" by (rule store_inv_step)
  then show ?case using s1(2) by (rule Cons.IH)
qed

text \<open>
  Claim C9. In every state the program reaches from startup, whatever the loop thread, the
  driver and the requests do, \<^verbatim>\<open>current_message\<close> ends with three spaces; so does every
  value ever assigned to it, the default message and the error message of the loop.
\<close>

theorem store_always_ends_with_spacing:
  assumes "run as (initial_system old_log) = Some s"
  shows "(\<exists>p. current_message (shared s) = p @ py ''   '') \<and>
         (\<forall>v. StoreWrite v \<in> set (effects (shared s)) \<longrightarrow> (\<exists>p. v = p @ py ''   '')) \<and>
         (\<exists>p. DEFAULT_MESSAGE = p @ py ''   '') \<and>
         (\<exists>p. ERROR_MESSAGE = p @ py ''   '')"
proof -
  have "store_inv (shared (initial_system old_log))"
    by (simp add: initial_system_def store_inv_startup)
  then have "store_inv (shared s)" using assms by (rule store_inv_run)
  then have "has_spacing (current_message (shared s))"
    and "\<forall>v. StoreWrite v \<in> set (effects (shared s)) \<longrightarrow> has_spacing v"
    by (simp_all add: store_inv_def)
  then show ?thesis
    using has_spacing_DEFAULT_MESSAGE has_spacing_ERROR_MESSAGE
    by (simp add: has_spacing_def MESSAGE_SPACING_def)
qed

theorem store_always_ends_with_spacing_witness:
  "\<exists>s. run example_trace (initial_system []) = Some s \<and>
       (\<exists>p. current_message (shared s) = p @ py ''   '')"
proof -
  obtain s where s: "run example_trace (initial_system []) = Some s"
    by (simp add: example_trace_def initial_system_def)
  from store_always_ends_with_spacing [OF s]
  have "\<exists>p. current_message (shared s) = p @ py ''   ''"
    by (rule conjunct1)
  with s show ?thesis by blast
qed

subsection \<open>The render loop\<close>

lemma run_Cons_Requests:
  "run (a # map Request rqs @ rest) s =
     (case step a s of
        None \<Rightarrow> None
      | Some s1 \<Rightarrow> run rest (s1\<lparr>shared := run_requests rqs (shared s1)\<rparr>))"
  by (simp add: run_append run_Requests split: option.splits)

lemma call_driver_current_message: "current_message (call_driver v w) = current_message w"
  by (simp add: call_driver_def)

lemma set_message_current_message: "current_message (set_message v w) = v"
  by (simp add: set_message_def)

lemma interleaved_current_message:
  "current_message (run_requests rqs3 (run_requests rqs2 (call_driver v (run_requests rqs1 w)))) =
   current_message (run_requests (rqs1 @ rqs2 @ rqs3) w)"
proof -
  have "current_message (run_requests rqs2 (call_driver v (run_requests rqs1 w))) =
        current_message (run_requests rqs2 (run_requests rqs1 w))"
    by (rule run_requests_current_message_cong) (rule call_driver_current_message)
  then have "current_message (run_requests rqs3 (run_requests rqs2 (call_driver v (run_requests rqs1 w)))) =
        current_message (run_requests rqs3 (run_requests rqs2 (run_requests rqs1 w)))"
    by (rule run_requests_current_message_cong)
  then show ?thesis by (simp only: run_requests_append)
qed

lemma render_call:
  "run (LoopStep # map Request rqs1 @ LoopStep # map Request rqs2) \<lparr>loop_pc = AtSnapshot, shared = w\<rparr> =
     Some \<lparr>loop_pc = InDriver (current_message w),
           shared = run_requests rqs2 (call_driver (current_message w) (run_requests rqs1 w))\<rparr>"
proof -
  have "run (LoopStep # map Request rqs2 @ []) \<lparr>loop_pc = AtCall (current_message w), shared = run_requests rqs1 w\<rparr> =
      Some \<lparr>loop_pc = InDriver (current_message w),
           shared = run_requests rqs2 (call_driver (current_message w) (run_requests rqs1 w))\<rparr>"
    unfolding run_Cons_Requests by (simp add: run_Requests)
  then show ?thesis
    unfolding run_Cons_Requests by (simp add: run_Requests)
qed

lemma render_returns:
  "run (DriverReturns # map Request rqs3 @ [LoopStep]) \<lparr>loop_pc = InDriver v, shared = w\<rparr> =
     Some \<lparr>loop_pc = AtSnapshot, shared = run_requests rqs3 w\<rparr>"
  unfolding run_Cons_Requests by (simp add: run_Requests)

lemma render_raises:
  "run (DriverRaises e # map Request rqs3 @ LoopStep # map Request rqs4 @ [LoopStep])
       \<lparr>loop_pc = InDriver v, shared = w\<rparr> =
     Some \<lparr>loop_pc = AtSleep,
           shared = set_message ERROR_MESSAGE
             (run_requests rqs4
               (print_line (py ''Error displaying message: '' @ exc_text e) (run_requests rqs3 w)))\<rparr>"
  unfolding run_Cons_Requests by (simp add: run_Requests)

lemma failing_iteration_alone:
  "run [LoopStep, LoopStep, DriverRaises e, LoopStep, LoopStep, LoopStep]
       \<lparr>loop_pc = AtSnapshot, shared = w\<rparr> =
     Some \<lparr>loop_pc = AtSnapshot,
           shared = w\<lparr>current_message := ERROR_MESSAGE,
                      effects := effects w @
                        [DriverCall (current_message w),
                         ConsolePrint (py ''Error displaying message: '' @ exc_text e),
                         StoreWrite ERROR_MESSAGE]\<rparr>\<rparr>"
  by (simp add: call_driver_def print_line_def set_message_def)

lemma normal_iteration_alone:
  "run [LoopStep, LoopStep, DriverReturns, LoopStep] \<lparr>loop_pc = AtSnapshot, shared = w\<rparr> =
     Some \<lparr>loop_pc = AtSnapshot,
           shared = w\<lparr>effects := effects w @ [DriverCall (current_message w)]\<rparr>\<rparr>"
  by (simp add: call_driver_def)

lemma failing_iteration_interleaved:
  "run (LoopStep # map Request rqs1 @ LoopStep # map Request rqs2 @
        DriverRaises e # map Request rqs3 @ LoopStep # map Request rqs4 @ [LoopStep, LoopStep])
       \<lparr>loop_pc = AtSnapshot, shared = w\<rparr> =
     Some \<lparr>loop_pc = AtSnapshot,
           shared = set_message ERROR_MESSAGE
             (run_requests rqs4
               (print_line (py ''Error displaying message: '' @ exc_text e)
                 (run_requests rqs3
                   (run_requests rqs2 (call_driver (current_message w) (run_requests rqs1 w))))))\<rparr>"
proof -
  let ?s1 = "\<lparr>loop_pc = InDriver (current_message w),
              shared = run_requests rqs2 (call_driver (current_message w) (run_requests rqs1 w))\<rparr>"
  have "run ((LoopStep # map Request rqs1 @ LoopStep # map Request rqs2) @
             (DriverRaises e # map Request rqs3 @ LoopStep # map Request rqs4 @ [LoopStep]) @
             [LoopStep]) \<lparr>loop_pc = AtSnapshot, shared = w\<rparr> =
        Some \<lparr>loop_pc = AtSnapshot,
           shared = set_message ERROR_MESSAGE
             (run_requests rqs4
               (print_line (py ''Error displaying message: '' @ exc_text e)
                 (run_requests rqs3 (shared ?s1))))\<rparr>"
    by (simp only: run_append render_call render_raises option.case) simp
  then show ?thesis by simp
qed

lemma normal_iteration_interleaved:
  "run (LoopStep # map Request rqs1 @ LoopStep # map Request rqs2 @
        DriverReturns # map Request rqs3 @ [LoopStep])
       \<lparr>loop_pc = AtSnapshot, shared = w\<rparr> =
     Some \<lparr>loop_pc = AtSnapshot,
           shared = run_requests rqs3
             (run_requests rqs2 (call_driver (current_message w) (run_requests rqs1 w)))\<rparr>"
proof -
  have "run ((LoopStep # map Request rqs1 @ LoopStep # map Request rqs2) @
             (DriverReturns # map Request rqs3 @ [LoopStep]))
            \<lparr>loop_pc = AtSnapshot, shared = w\<rparr> =
        Some \<lparr>loop_pc = AtSnapshot,
           shared = run_requests rqs3
             (run_requests rqs2 (call_driver (current_message w) (run_requests rqs1 w)))\<rparr>"
    by (simp only: run_append render_call render_returns option.case)
  then show ?thesis by simp
qed

lemma loop_never_stops:
  "\<exists>s'. step LoopStep s = Some s' \<or> step DriverReturns s = Some s'"
  by (cases "loop_pc s") simp_all

text \<open>
  Claim C4. One iteration of the render loop in which the driver raises prints the reason,
  assigns the error message to the store and ends at the top of the loop, ready for the
  next iteration; this also holds when requests are handled between the steps of the
  iteration. An iteration in which the driver returns normally leaves the store as the
  requests alone would have left it (unchanged when there are none). In no state is the
  loop thread finished: either it can take a step, or it is waiting for the driver.
\<close>

theorem render_failure_is_contained:
  "run [LoopStep, LoopStep, DriverRaises e, LoopStep, LoopStep, LoopStep]
       \<lparr>loop_pc = AtSnapshot, shared = w\<rparr> =
     Some \<lparr>loop_pc = AtSnapshot,
           shared = w\<lparr>current_message := ERROR_MESSAGE,
                      effects := effects w @
                        [DriverCall (current_message w),
                         ConsolePrint (py ''Error displaying message: '' @ exc_text e),
                         StoreWrite ERROR_MESSAGE]\<rparr>\<rparr>
   \<and> (\<exists>s'. run (LoopStep # map Request rqs1 @ LoopStep # map Request rqs2 @
                DriverRaises e # map Request rqs3 @ LoopStep # map Request rqs4 @
                [LoopStep, LoopStep])
               \<lparr>loop_pc = AtSnapshot, shared = w\<rparr> = Some s' \<and>
            loop_pc s' = AtSnapshot \<and> current_message (shared s') = ERROR_MESSAGE)
   \<and> run [LoopStep, LoopStep, DriverReturns, LoopStep] \<lparr>loop_pc = AtSnapshot, shared = w\<rparr> =
       Some \<lparr>loop_pc = AtSnapshot,
             shared = w\<lparr>effects := effects w @ [DriverCall (current_message w)]\<rparr>\<rparr>
   \<and> (\<exists>s'. run (LoopStep # map Request rqs1 @ LoopStep # map Request rqs2 @
                DriverReturns # map Request rqs3 @ [LoopStep])
               \<lparr>loop_pc = AtSnapshot, shared = w\<rparr> = Some s' \<and>
            loop_pc s' = AtSnapshot \<and>
            current_message (shared s') = current_message (run_requests (rqs1 @ rqs2 @ rqs3) w))
   \<and> (\<exists>s'. step LoopStep s = Some s' \<or> step DriverReturns s = Some s')"
proof (intro conjI)
  show "\<exists>s'. run (LoopStep # map Request rqs1 @ LoopStep # map Request rqs2 @
                DriverRaises e # map Request rqs3 @ LoopStep # map Request rqs4 @
                [LoopStep, LoopStep])
               \<lparr>loop_pc = AtSnapshot, shared = w\<rparr> = Some s' \<and>
            loop_pc s' = AtSnapshot \<and> current_message (shared s') = ERROR_MESSAGE"
    by (simp only: failing_iteration_interleaved) (simp add: set_message_current_message)
  show "\<exists>s'. run (LoopStep # map Request rqs1 @ LoopStep # map Request rqs2 @
                DriverReturns # map Request rqs3 @ [LoopStep])
               \<lparr>loop_pc = AtSnapshot, shared = w\<rparr> = Some s' \<and>
            loop_pc s' = AtSnapshot \<and>
            current_message (shared s') = current_message (run_requests (rqs1 @ rqs2 @ rqs3) w)"
    by (simp only: normal_iteration_interleaved) (simp add: interleaved_current_message)
qed (rule failing_iteration_alone normal_iteration_alone loop_never_stops)+

theorem render_failure_is_contained_witness:
  "run [LoopStep, LoopStep, DriverRaises (PyException (py ''bad glyph'')), LoopStep, LoopStep, LoopStep]
       \<lparr>loop_pc = AtSnapshot, shared = startup_world []\<rparr> =
     Some \<lparr>loop_pc = AtSnapshot,
           shared = \<lparr>current_message = py ''Error: Unsupported character   '', log_file = [],
                    effects = [DriverCall (py ''Welcome to DotNote!   ''),
                               ConsolePrint (py ''Error displaying message: bad glyph''),
                               StoreWrite (py ''Error: Unsupported character   '')]\<rparr>\<rparr>"
proof -
  have "run [LoopStep, LoopStep, DriverRaises (PyException (py ''bad glyph'')), LoopStep, LoopStep, LoopStep]
       \<lparr>loop_pc = AtSnapshot, shared = startup_world []\<rparr> =
     Some \<lparr>loop_pc = AtSnapshot,
           shared = (startup_world [])\<lparr>current_message := ERROR_MESSAGE,
                      effects := effects (startup_world []) @
                        [DriverCall (current_message (startup_world [])),
                         ConsolePrint (py ''Error displaying message: '' @ exc_text (PyException (py ''bad glyph''))),
                         StoreWrite ERROR_MESSAGE]\<rparr>\<rparr>"
    using render_failure_is_contained
      [where e = "PyException (py ''bad glyph'')" and w = "startup_world []"]
    by (rule conjunct1)
  then show ?thesis
    by (simp add: startup_world_def ERROR_MESSAGE_def DEFAULT_MESSAGE_def py_def)
qed

lemma update_message_effects_no_driver:
  "\<exists>es. effects (snd (update_message rq w)) = effects w @ es \<and> (\<forall>v. DriverCall v \<notin> set es)"
proof (cases "arg_message rq = None \<or> (\<exists>m. arg_message rq = Some m \<and> strip m = [])")
  case True
  then have "effects (snd (update_message rq w)) = effects w @ []"
    by (simp add: update_message_rejected)
  then show ?thesis by fastforce
next
  case False
  then obtain m where m: "arg_message rq = Some m" "strip m \<noteq> []" by auto
  show ?thesis
  proof (cases "log_io rq")
    case Written
    then show ?thesis
      using accepted_effects [OF m, of w] by (intro exI conjI) (assumption, simp)
  next
    case (AppendRaises e k)
    then show ?thesis
      using accepted_effects [OF m, of w] by (intro exI conjI) (assumption, simp)
  qed
qed

lemma run_requests_effects_no_driver:
  "\<exists>es. effects (run_requests rqs w) = effects w @ es \<and> (\<forall>v. DriverCall v \<notin> set es)"
proof (induction rqs arbitrary: w)
  case Nil
  have "effects (run_requests [] w) = effects w @ []" by simp
  then show ?case by fastforce
next
  case (Cons rq rqs)
  obtain es1 where 1: "effects (snd (update_message rq w)) = effects w @ es1"
      "\<forall>v. DriverCall v \<notin> set es1"
    using update_message_effects_no_driver by blast
  obtain es2 where 2: "effects (run_requests rqs (snd (update_message rq w))) =
      effects (snd (update_message rq w)) @ es2" "\<forall>v. DriverCall v \<notin> set es2"
    using Cons.IH by blast
  have "effects (run_requests (rq # rqs) w) = effects w @ (es1 @ es2)"
    by (simp add: 1(1) 2(1))
  moreover have "\<forall>v. DriverCall v \<notin> set (es1 @ es2)"
    using 1(2) 2(2) by simp
  ultimately show ?case by blast
qed

lemma call_driver_effects: "effects (call_driver v w) = effects w @ [DriverCall v]"
  by (simp add: call_driver_def)

lemma render_call_effects:
  "\<exists>es1 es2.
     effects (run_requests rqs2 (call_driver v (run_requests rqs1 w))) =
       effects w @ es1 @ [DriverCall v] @ es2 \<and>
     (\<forall>u. DriverCall u \<notin> set es1) \<and> (\<forall>u. DriverCall u \<notin> set es2)"
proof -
  obtain es1 where 1: "effects (run_requests rqs1 w) = effects w @ es1"
      "\<forall>u. DriverCall u \<notin> set es1"
    using run_requests_effects_no_driver by blast
  obtain es2 where 2: "effects (run_requests rqs2 (call_driver v (run_requests rqs1 w))) =
      effects (call_driver v (run_requests rqs1 w)) @ es2" "\<forall>u. DriverCall u \<notin> set es2"
    using run_requests_effects_no_driver by blast
  have "effects (run_requests rqs2 (call_driver v (run_requests rqs1 w))) =
      effects w @ es1 @ [DriverCall v] @ es2"
    by (simp only: 2(1) call_driver_effects 1(1) append_assoc)
  with 1(2) 2(2) show ?thesis by blast
qed

text \<open>
  Claim C8. The driver is called with the value the store had when the iteration began,
  also when requests are handled between the snapshot and the call (\<open>rqs1\<close>) and while
  the call is in progress (\<open>rqs2\<close>): the one call recorded in the iteration carries the
  snapshot, while the store has become what those requests made of it. The snapshot of
  the next iteration is the store as those requests, and the ones handled before it
  (\<open>rqs3\<close>), have left it.
\<close>

theorem driver_gets_snapshot:
  "run (LoopStep # map Request rqs1 @ LoopStep # map Request rqs2)
       \<lparr>loop_pc = AtSnapshot, shared = w\<rparr> =
     Some \<lparr>loop_pc = InDriver (current_message w),
           shared = run_requests rqs2 (call_driver (current_message w) (run_requests rqs1 w))\<rparr>
   \<and> (\<exists>s' es1 es2.
         run (LoopStep # map Request rqs1 @ LoopStep # map Request rqs2)
             \<lparr>loop_pc = AtSnapshot, shared = w\<rparr> = Some s' \<and>
         effects (shared s') = effects w @ es1 @ [DriverCall (current_message w)] @ es2 \<and>
         (\<forall>v. DriverCall v \<notin> set es1) \<and> (\<forall>v. DriverCall v \<notin> set es2) \<and>
         current_message (shared s') = current_message (run_requests (rqs1 @ rqs2) w))
   \<and> (\<exists>s'. run (LoopStep # map Request rqs1 @ LoopStep # map Request rqs2 @
                DriverReturns # map Request rqs3 @ [LoopStep, LoopStep])
               \<lparr>loop_pc = AtSnapshot, shared = w\<rparr> = Some s' \<and>
            loop_pc s' = AtCall (current_message (run_requests (rqs1 @ rqs2 @ rqs3) w)))"
proof (intro conjI)
  show "run (LoopStep # map Request rqs1 @ LoopStep # map Request rqs2)
       \<lparr>loop_pc = AtSnapshot, shared = w\<rparr> =
     Some \<lparr>loop_pc = InDriver (current_message w),
           shared = run_requests rqs2 (call_driver (current_message w) (run_requests rqs1 w))\<rparr>"
    by (rule render_call)
  let ?w' = "run_requests rqs2 (call_driver (current_message w) (run_requests rqs1 w))"
  obtain es1 es2 where es:
    "effects ?w' = effects w @ es1 @ [DriverCall (current_message w)] @ es2"
    "\<forall>v. DriverCall v \<notin> set es1" "\<forall>v. DriverCall v \<notin> set es2"
    using render_call_effects by blast
  have "current_message ?w' = current_message (run_requests rqs2 (run_requests rqs1 w))"
    by (rule run_requests_current_message_cong) (rule call_driver_current_message)
  then have c: "current_message ?w' = current_message (run_requests (rqs1 @ rqs2) w)"
    by (simp only: run_requests_append)
  show "\<exists>s' es1 es2.
         run (LoopStep # map Request rqs1 @ LoopStep # map Request rqs2)
             \<lparr>loop_pc = AtSnapshot, shared = w\<rparr> = Some s' \<and>
         effects (shared s') = effects w @ es1 @ [DriverCall (current_message w)] @ es2 \<and>
         (\<forall>v. DriverCall v \<notin> set es1) \<and> (\<forall>v. DriverCall v \<notin> set es2) \<and>
         current_message (shared s') = current_message (run_requests (rqs1 @ rqs2) w)"
    unfolding render_call using es c by auto
  have "run ((LoopStep # map Request rqs1 @ LoopStep # map Request rqs2 @
              DriverReturns # map Request rqs3 @ [LoopStep]) @ [LoopStep])
            \<lparr>loop_pc = AtSnapshot, shared = w\<rparr> =
        Some \<lparr>loop_pc = AtCall (current_message (run_requests (rqs1 @ rqs2 @ rqs3) w)),
              shared = run_requests rqs3
                (run_requests rqs2 (call_driver (current_message w) (run_requests rqs1 w)))\<rparr>"
    by (simp only: run_append normal_iteration_interleaved option.case)
       (simp add: interleaved_current_message)
  then show "\<exists>s'. run (LoopStep # map Request rqs1 @ LoopStep # map Request rqs2 @
                DriverReturns # map Request rqs3 @ [LoopStep, LoopStep])
               \<lparr>loop_pc = AtSnapshot, shared = w\<rparr> = Some s' \<and>
            loop_pc s' = AtCall (current_message (run_requests (rqs1 @ rqs2 @ rqs3) w))"
    by simp
qed

theorem driver_gets_snapshot_witness:
  "run [LoopStep, Request hello_request, LoopStep, Request padded_request]
       \<lparr>loop_pc = AtSnapshot, shared = startup_world []\<rparr> =
     Some \<lparr>loop_pc = InDriver (py ''Welcome to DotNote!   ''),
           shared =
             \<lparr>current_message = py '' Hi    '',
              log_file = py ''2024-05-01 12:00:00 - 192.168.1.20 - Hello'' @ [10] @
                         py ''2024-05-01 12:00:09 - 10.0.0.7 - Hi'' @ [10],
              effects =
                [StoreWrite (py ''Hello   ''),
                 LogAppend (py ''2024-05-01 12:00:00 - 192.168.1.20 - Hello'' @ [10]),
                 BeepStart,
                 DriverCall (py ''Welcome to DotNote!   ''),
                 StoreWrite (py '' Hi    ''),
                 LogAppend (py ''2024-05-01 12:00:09 - 10.0.0.7 - Hi'' @ [10]),
                 BeepStart]\<rparr>\<rparr>"
proof -
  have w: "run_requests [padded_request]
             (call_driver (current_message (startup_world []))
               (run_requests [hello_request] (startup_world []))) =
           \<lparr>current_message = py '' Hi    '',
              log_file = py ''2024-05-01 12:00:00 - 192.168.1.20 - Hello'' @ [10] @
                         py ''2024-05-01 12:00:09 - 10.0.0.7 - Hi'' @ [10],
              effects =
                [StoreWrite (py ''Hello   ''),
                 LogAppend (py ''2024-05-01 12:00:00 - 192.168.1.20 - Hello'' @ [10]),
                 BeepStart,
                 DriverCall (py ''Welcome to DotNote!   ''),
                 StoreWrite (py '' Hi    ''),
                 LogAppend (py ''2024-05-01 12:00:09 - 10.0.0.7 - Hi'' @ [10]),
                 BeepStart]\<rparr>"
    by (simp add: update_message_def hello_request_def padded_request_def startup_world_def
        strip_def isspace_def py_def Let_def log_message_def append_log_def LOG_ENABLED_def
        BUZZER_ENABLED_def start_beep_def set_message_def call_driver_def
        MESSAGE_SPACING_def DEFAULT_MESSAGE_def)
  have "run (LoopStep # map Request [hello_request] @ LoopStep # map Request [padded_request])
          \<lparr>loop_pc = AtSnapshot, shared = startup_world []\<rparr> =
        Some \<lparr>loop_pc = InDriver (current_message (startup_world [])),
              shared = run_requests [padded_request]
                (call_driver (current_message (startup_world []))
                  (run_requests [hello_request] (startup_world [])))\<rparr>"
    using driver_gets_snapshot
      [where w = "startup_world []" and ?rqs1.0 = "[hello_request]"
         and ?rqs2.0 = "[padded_request]"]
    by (rule conjunct1)
  then have "run [LoopStep, Request hello_request, LoopStep, Request padded_request]
          \<lparr>loop_pc = AtSnapshot, shared = startup_world []\<rparr> =
        Some \<lparr>loop_pc = InDriver (current_message (startup_world [])),
              shared = run_requests [padded_request]
                (call_driver (current_message (startup_world []))
                  (run_requests [hello_request] (startup_world [])))\<rparr>"
    by (simp only: list.map append.simps)
  then show ?thesis
    unfolding w by (simp add: startup_world_def DEFAULT_MESSAGE_def)
qed

end
